theory Spec2Isabelle
  imports Main "HOL-Library.Sublist"
begin

section \<open>Values, failures and requests\<close>

text \<open>
  The module \<^verbatim>\<open>rest_framework_cern_sso/authentication.py\<close> defines three authenticators
  over a request's headers. A header dictionary is annotated \<^verbatim>\<open>dict\<close> in the helper
  methods, so a dictionary value is any Python value; of those only strings have a
  \<^verbatim>\<open>split\<close> attribute.
\<close>

datatype pyval = PyStr string | PyNone | PyInt int

text \<open>
  Modelled from the spec: \<^verbatim>\<open>exceptions.py\<close> is not among the sources. A classified
  \<^verbatim>\<open>AuthenticationFailed\<close> carries a detail text and a code (spec, section 6). The
  constructor records the positional arguments of the \<^verbatim>\<open>raise\<close>: the first is the detail,
  the second, when one is passed, is the code. The other constructors are the Python
  exceptions the module's own expressions can raise, and \<open>ProviderError\<close> is a failure
  of the external identity provider.
\<close>

datatype failure =
    AuthenticationFailed string "string option"
  | ValueError string
  | KeyError string
  | AttributeError string
  | IndexError
  | ProgrammingError
  | ProviderError string

fun reason :: "failure \<Rightarrow> string option" where
  "reason (AuthenticationFailed detail c) = c"
| "reason _ = None"

text \<open>
  The framework's request: header names map to string values. The framework's mapping
  identifies names up to letter case; a key of the model stands for the name as the
  framework normalises it.
\<close>

record request =
  headers :: "string \<rightharpoonup> string"

definition headers_dict :: "request \<Rightarrow> (string \<rightharpoonup> pyval)" where
  "headers_dict req = (\<lambda>k. map_option PyStr (headers req k))"

section \<open>Python's \<^verbatim>\<open>str.split\<close> and indexing from the end\<close>

text \<open>
  \<^verbatim>\<open>s.split(sep)\<close> scans \<open>s\<close> from the left; wherever \<open>sep\<close> starts it closes the
  current piece and skips \<open>sep\<close>. An empty separator raises \<^verbatim>\<open>ValueError\<close>. A
  string is its list of bytes; the separator of the module is ASCII, and in UTF-8 an
  ASCII byte is never part of a longer character, so splitting bytes and splitting
  Python's characters cut at the same places.
\<close>

function split_from :: "string \<Rightarrow> string \<Rightarrow> string \<Rightarrow> string list" where
  "split_from sep piece [] = [piece]"
| "split_from sep piece (c # cs) =
     (if sep \<noteq> [] \<and> prefix sep (c # cs)
      then piece # split_from sep [] (drop (length sep) (c # cs))
      else split_from sep (piece @ [c]) cs)"
  by pat_completeness auto
termination
  by (relation "measure (\<lambda>(sep, piece, rest). length rest)") auto

definition py_split :: "string \<Rightarrow> string \<Rightarrow> failure + string list" where
  "py_split s sep =
     (if sep = [] then Inl (ValueError ''empty separator'') else Inr (split_from sep [] s))"

text \<open>\<^verbatim>\<open>xs[-1]\<close>: the last item, \<^verbatim>\<open>IndexError\<close> on an empty list.\<close>

definition last_item :: "'a list \<Rightarrow> failure + 'a" where
  "last_item xs = (case rev xs of [] \<Rightarrow> Inl IndexError | x # _ \<Rightarrow> Inr x)"

section \<open>Header helpers of the authenticators\<close>

definition HEADER_KEY_secret :: string where
  "HEADER_KEY_secret = ''X-CLIENT-SECRET''"

definition HEADER_KEY_bearer :: string where
  "HEADER_KEY_bearer = ''Authorization''"

text \<open>\<^verbatim>\<open>headers.get(self.HEADER_KEY)\<close>: the value, or \<^verbatim>\<open>None\<close> for a missing key.\<close>

definition get_secret_key :: "(string \<rightharpoonup> pyval) \<Rightarrow> pyval" where
  "get_secret_key hs = (case hs HEADER_KEY_secret of None \<Rightarrow> PyNone | Some v \<Rightarrow> v)"

text \<open>
  \<^verbatim>\<open>get_access_token\<close>: a missing key is turned into \<open>authorization_not_found\<close>; the
  second \<^verbatim>\<open>try\<close> turns an \<^verbatim>\<open>AttributeError\<close> of \<^verbatim>\<open>bearer.split\<close> (a value that
  is no string) into \<open>bad_access_token\<close> and lets every other exception through.
\<close>

definition get_access_token :: "(string \<rightharpoonup> pyval) \<Rightarrow> failure + string" where
  "get_access_token hs =
     (case hs HEADER_KEY_bearer of
        None \<Rightarrow>
          Inl (AuthenticationFailed ''Authorization header not found.''
                 (Some ''authorization_not_found''))
      | Some bearer \<Rightarrow>
          (case bearer of
             PyStr s \<Rightarrow>
               (case py_split s ''Bearer '' of
                  Inl e \<Rightarrow> Inl e
                | Inr parts \<Rightarrow> last_item parts)
           | _ \<Rightarrow> Inl (AuthenticationFailed ''Malformed access token.''
                        (Some ''bad_access_token''))))"

section \<open>Configuration and the module-level clients\<close>

text \<open>The settings the module reads (\<^verbatim>\<open>dials/settings.py\<close>, lines 157 to 163).\<close>

record settings =
  KEYCLOAK_SERVER_URL :: string
  KEYCLOAK_REALM :: string
  KEYCLOAK_CONFIDENTIAL_CLIENT_ID :: string
  KEYCLOAK_CONFIDENTIAL_SECRET_KEY :: string
  KEYCLOAK_PUBLIC_CLIENT_ID :: string
  KEYCLOAK_API_CLIENTS :: "string \<rightharpoonup> string"

text \<open>
  Modelled from the spec: \<^verbatim>\<open>backends.py\<close> (class \<^verbatim>\<open>CERNKeycloakOIDC\<close>) is not among the
  sources. An OIDC client has a provider base URL, a realm name, a client identifier and
  an optional client secret (spec, section 3); the fields are the keyword arguments of
  the three constructor calls of the module.
\<close>

record oidc =
  server_url :: string
  client_id :: string
  client_secret_key :: "string option"
  realm_name :: string

text \<open>The three module-level names, bound once when the module is imported.\<close>

record module_globals =
  public_kc :: oidc
  confidential_kc :: oidc
  api_clients_kc :: "string \<rightharpoonup> oidc"

definition init_module :: "settings \<Rightarrow> module_globals" where
  "init_module cfg =
     \<lparr> public_kc =
         \<lparr> server_url = KEYCLOAK_SERVER_URL cfg,
           client_id = KEYCLOAK_PUBLIC_CLIENT_ID cfg,
           client_secret_key = None,
           realm_name = KEYCLOAK_REALM cfg \<rparr>,
       confidential_kc =
         \<lparr> server_url = KEYCLOAK_SERVER_URL cfg,
           client_id = KEYCLOAK_CONFIDENTIAL_CLIENT_ID cfg,
           client_secret_key = Some (KEYCLOAK_CONFIDENTIAL_SECRET_KEY cfg),
           realm_name = KEYCLOAK_REALM cfg \<rparr>,
       api_clients_kc =
         (\<lambda>secret.
            map_option
              (\<lambda>cid. \<lparr> server_url = KEYCLOAK_SERVER_URL cfg,
                       client_id = cid,
                       client_secret_key = Some secret,
                       realm_name = KEYCLOAK_REALM cfg \<rparr>)
              (KEYCLOAK_API_CLIENTS cfg secret)) \<rparr>"

section \<open>Tokens, principals and the identity provider\<close>

text \<open>
  Modelled from the spec: \<^verbatim>\<open>token.py\<close> (class \<^verbatim>\<open>CERNKeycloakToken\<close>) is not among the
  sources. The decoded claims carry the audiences, the authorized party and what a
  principal shows (subject, user name, roles).
\<close>

record jwt_claims =
  aud :: "string list"
  azp :: string
  sub :: string
  preferred_username :: string
  roles :: "string list"

text \<open>
  Modelled from the spec: a token holds the raw string, the client it is checked against,
  the unverified claims and the verified claims, present only once validated (spec,
  section 3). The source assigns the attributes \<^verbatim>\<open>is_authenticated\<close>, \<^verbatim>\<open>claims\<close> and reads
  \<^verbatim>\<open>unv_claims\<close>, so the validation flag is the boolean \<open>is_authenticated\<close>.
\<close>

record token =
  access_token :: string
  kc :: oidc
  unv_claims :: jwt_claims
  claims :: "jwt_claims option"
  is_authenticated :: bool

text \<open>
  Modelled from the spec: the identity provider and the cryptography are external. The
  two methods of an OIDC client that reach the provider, and the decoding of a token's
  unverified payload, are parameters; \<open>'p\<close> is the provider's state (issued tokens,
  cached keys), which a call may change. A client is an argument of the methods and not
  part of their result: a client owns no mutable state (spec, section 3).
\<close>

record 'p backend =
  issue_api_token :: "oidc \<Rightarrow> 'p \<Rightarrow> (failure + (string \<rightharpoonup> string)) \<times> 'p"
  verify :: "oidc \<Rightarrow> string \<Rightarrow> 'p \<Rightarrow> (failure + jwt_claims) \<times> 'p"
  decode_unverified :: "string \<Rightarrow> jwt_claims"

text \<open>
  Modelled from the spec: the constructor \<^verbatim>\<open>CERNKeycloakToken(access_token, kc)\<close> gives
  an unvalidated token without verified claims.
\<close>

definition CERNKeycloakToken :: "'p backend \<Rightarrow> string \<Rightarrow> oidc \<Rightarrow> token" where
  "CERNKeycloakToken B raw k =
     \<lparr> access_token = raw, kc = k, unv_claims = decode_unverified B raw,
       claims = None, is_authenticated = False \<rparr>"

text \<open>
  Modelled from the spec: \<^verbatim>\<open>token.validate(valid_aud, valid_azp)\<close> (spec, section 4.3).
  A token validates at most once; the client's \<open>verify\<close> decides signature and
  expiry; then the decoded audiences must meet the expected ones and the decoded
  authorized party must be an expected one. Success sets the flag and the verified
  claims; every failure is raised. The spec fixes the code of a failure only, so the
  detail text is left empty.
\<close>

definition classified :: "string \<Rightarrow> failure" where
  "classified c = AuthenticationFailed [] (Some c)"

definition validate ::
  "'p backend \<Rightarrow> token \<Rightarrow> string list \<Rightarrow> string list \<Rightarrow> 'p \<Rightarrow> (failure + token) \<times> 'p" where
  "validate B t valid_aud valid_azp p =
     (if is_authenticated t \<or> claims t \<noteq> None then (Inl ProgrammingError, p)
      else
        (case verify B (kc t) (access_token t) p of
           (Inl e, p') \<Rightarrow> (Inl e, p')
         | (Inr c, p') \<Rightarrow>
             if \<not> (\<exists>a \<in> set (aud c). a \<in> set valid_aud)
             then (Inl (classified ''invalid_audience''), p')
             else if azp c \<notin> set valid_azp
             then (Inl (classified ''invalid_azp''), p')
             else (Inr (t\<lparr>claims := Some c, is_authenticated := True\<rparr>), p')))"

text \<open>
  Modelled from the spec: \<^verbatim>\<open>user.py\<close> (class \<^verbatim>\<open>CERNKeycloakUser\<close>) is not among the
  sources. A principal is a read-only view over the token that authenticated it (spec,
  section 3): it keeps the token, and its attributes are read from the token's verified
  claims.
\<close>

record principal =
  principal_token :: token

definition CERNKeycloakUser :: "token \<Rightarrow> principal" where
  "CERNKeycloakUser t = \<lparr> principal_token = t \<rparr>"

definition subject :: "principal \<Rightarrow> string option" where
  "subject u = map_option sub (claims (principal_token u))"

definition username :: "principal \<Rightarrow> string option" where
  "username u = map_option preferred_username (claims (principal_token u))"

section \<open>The world an authentication pass runs in\<close>

text \<open>
  A call to a collaborator that reaches the provider is written to a log, in the order
  of the calls.
\<close>

datatype call =
    IssueApiToken oidc
  | Validate token "string list" "string list"

record 'p world =
  cfg :: settings
  globals :: module_globals
  idp :: 'p
  calls :: "call list"

definition startup :: "settings \<Rightarrow> 'p \<Rightarrow> 'p world" where
  "startup c p = \<lparr> cfg = c, globals = init_module c, idp = p, calls = [] \<rparr>"

section \<open>The secret authenticator\<close>

text \<open>
  \<^verbatim>\<open>secret_key not in api_clients_kc\<close>: the keys of the registry are strings, so a value
  that is no string is not among them.
\<close>

fun registry_lookup :: "(string \<rightharpoonup> oidc) \<Rightarrow> pyval \<Rightarrow> oidc option" where
  "registry_lookup m (PyStr s) = m s"
| "registry_lookup m v = None"

type_synonym 'p outcome = "(failure + (principal \<times> token) option) \<times> 'p world"

text \<open>
  \<^verbatim>\<open>authenticate\<close> of the secret class (lines 62 to 86). The \<^verbatim>\<open>raise\<close> for a secret
  that is not registered has two adjacent string literals and no comma between them:
  Python joins them, and the failure is built from that one argument. The token is
  patched after construction, first the flag, then the claims.
\<close>

definition authenticate_secret :: "'p backend \<Rightarrow> 'p world \<Rightarrow> request \<Rightarrow> 'p outcome" where
  "authenticate_secret B w req =
     (let secret_key = get_secret_key (headers_dict req) in
      if secret_key = PyNone then (Inr None, w)
      else
        (case registry_lookup (api_clients_kc (globals w)) secret_key of
           None \<Rightarrow>
             (Inl (AuthenticationFailed
                     (''App secret is not authorized.'' @ ''app_secret_not_authorized'') None), w)
         | Some k \<Rightarrow>
             (case issue_api_token B k (idp w) of
                (issued, p') \<Rightarrow>
                  (let w' = w\<lparr>idp := p', calls := calls w @ [IssueApiToken k]\<rparr> in
                   case issued of
                     Inl e \<Rightarrow> (Inl e, w')
                   | Inr issued_token \<Rightarrow>
                       (case issued_token ''access_token'' of
                          None \<Rightarrow> (Inl (KeyError ''access_token''), w')
                        | Some raw \<Rightarrow>
                            (let t0 = CERNKeycloakToken B raw k;
                                 t1 = t0\<lparr>is_authenticated := True\<rparr>;
                                 t2 = t1\<lparr>claims := Some (unv_claims t1)\<rparr>
                             in (Inr (Some (CERNKeycloakUser t2, t2)), w')))))))"

section \<open>The bearer authenticators\<close>

text \<open>
  An instance of the bearer class has the attribute \<^verbatim>\<open>expected_bearer_token_type\<close> only
  when a constructor has set it: the base class sets none, the two subclasses set
  \<^verbatim>\<open>"public"\<close> and \<^verbatim>\<open>"confidential"\<close>.
\<close>

record bearer_authentication =
  expected_bearer_token_type :: "pyval option"

definition CERNKeycloakBearerAuthentication :: bearer_authentication where
  "CERNKeycloakBearerAuthentication = \<lparr> expected_bearer_token_type = None \<rparr>"

definition CERNKeycloakPublicAuthentication :: bearer_authentication where
  "CERNKeycloakPublicAuthentication =
     CERNKeycloakBearerAuthentication\<lparr>expected_bearer_token_type := Some (PyStr ''public'')\<rparr>"

definition CERNKeycloakConfidentialAuthentication :: bearer_authentication where
  "CERNKeycloakConfidentialAuthentication =
     CERNKeycloakBearerAuthentication\<lparr>expected_bearer_token_type := Some (PyStr ''confidential'')\<rparr>"

definition get_kc_by_expected_token ::
  "settings \<Rightarrow> module_globals \<Rightarrow> bearer_authentication
     \<Rightarrow> failure + (oidc \<times> string list \<times> string list)" where
  "get_kc_by_expected_token c g self =
     (case expected_bearer_token_type self of
        None \<Rightarrow> Inl (AttributeError ''expected_bearer_token_type'')
      | Some ty \<Rightarrow>
          if ty = PyStr ''public''
          then Inr (public_kc g, [KEYCLOAK_PUBLIC_CLIENT_ID c], [KEYCLOAK_PUBLIC_CLIENT_ID c])
          else if ty = PyStr ''confidential''
          then Inr (confidential_kc g, [KEYCLOAK_CONFIDENTIAL_CLIENT_ID c],
                    [KEYCLOAK_CONFIDENTIAL_CLIENT_ID c, KEYCLOAK_PUBLIC_CLIENT_ID c])
          else Inl (ValueError ''expected_bearer_token_type should only be public or confidential.''))"

definition authenticate_bearer ::
  "'p backend \<Rightarrow> bearer_authentication \<Rightarrow> 'p world \<Rightarrow> request \<Rightarrow> 'p outcome" where
  "authenticate_bearer B self w req =
     (case get_access_token (headers_dict req) of
        Inl e \<Rightarrow> (Inl e, w)
      | Inr raw \<Rightarrow>
          (case get_kc_by_expected_token (cfg w) (globals w) self of
             Inl e \<Rightarrow> (Inl e, w)
           | Inr (k, valid_aud, valid_azp) \<Rightarrow>
               (let t0 = CERNKeycloakToken B raw k in
                case validate B t0 valid_aud valid_azp (idp w) of
                  (r, p') \<Rightarrow>
                    (let w' = w\<lparr>idp := p', calls := calls w @ [Validate t0 valid_aud valid_azp]\<rparr> in
                     case r of
                       Inl e \<Rightarrow> (Inl e, w')
                     | Inr t \<Rightarrow> (Inr (Some (CERNKeycloakUser t, t)), w')))))"

section \<open>Authentication passes\<close>

text \<open>
  The framework runs one authenticator on one request at a time; the world a pass leaves
  is the world the next pass starts in.
\<close>

datatype authenticator =
    ClientSecret
  | Bearer bearer_authentication

fun authenticate :: "'p backend \<Rightarrow> authenticator \<Rightarrow> 'p world \<Rightarrow> request \<Rightarrow> 'p outcome" where
  "authenticate B ClientSecret w req = authenticate_secret B w req"
| "authenticate B (Bearer self) w req = authenticate_bearer B self w req"

fun run_passes :: "'p backend \<Rightarrow> 'p world \<Rightarrow> (authenticator \<times> request) list \<Rightarrow> 'p world" where
  "run_passes B w [] = w"
| "run_passes B w ((a, req) # rest) = run_passes B (snd (authenticate B a w req)) rest"

section \<open>How a token came to be trusted\<close>

text \<open>
  The token record has one flag. Whether a flagged token was validated or was trusted
  because the process had just minted it is read off the way it was made, from the
  provider state \<open>p\<close> the pass started in:
  \<^item> \<open>validated\<close>: \<open>validate\<close> on the fresh token of \<open>t\<close>'s string and client
    completed and gave \<open>t\<close>;
  \<^item> \<open>pre_trusted\<close>: \<open>t\<close>'s client issued \<open>t\<close>'s string on request, and \<open>t\<close> is the
    fresh token of that string with the flag set and the unverified claims copied.
\<close>

definition validated :: "'p backend \<Rightarrow> 'p \<Rightarrow> string list \<Rightarrow> string list \<Rightarrow> token \<Rightarrow> bool" where
  "validated B p valid_aud valid_azp t \<longleftrightarrow>
     fst (validate B (CERNKeycloakToken B (access_token t) (kc t)) valid_aud valid_azp p) = Inr t"

definition pre_trusted :: "'p backend \<Rightarrow> 'p \<Rightarrow> token \<Rightarrow> bool" where
  "pre_trusted B p t \<longleftrightarrow>
     (case fst (issue_api_token B (kc t) p) of
        Inl e \<Rightarrow> False
      | Inr issued \<Rightarrow> issued ''access_token'' = Some (access_token t))
     \<and> t = (CERNKeycloakToken B (access_token t) (kc t))
             \<lparr>claims := Some (decode_unverified B (access_token t)), is_authenticated := True\<rparr>"

section \<open>The substring after the last occurrence, in the spec's words\<close>

text \<open>
  \<open>sep\<close> occurs in \<open>s\<close> at position \<open>i\<close>; the greatest such position up to \<open>n\<close>; and
  the part of \<open>s\<close> behind the last occurrence of \<open>sep\<close>, or all of \<open>s\<close> when \<open>sep\<close>
  does not occur. These follow the words of the claim about \<^verbatim>\<open>get_access_token\<close>, not
  the source, and are compared with the source's \<^verbatim>\<open>split\<close> below.
\<close>

definition occurs_at :: "string \<Rightarrow> string \<Rightarrow> nat \<Rightarrow> bool" where
  "occurs_at sep s i \<longleftrightarrow> take (length sep) (drop i s) = sep"

fun last_occurrence :: "string \<Rightarrow> string \<Rightarrow> nat \<Rightarrow> nat option" where
  "last_occurrence sep s 0 = (if occurs_at sep s 0 then Some 0 else None)"
| "last_occurrence sep s (Suc n) =
     (if occurs_at sep s (Suc n) then Some (Suc n) else last_occurrence sep s n)"

definition after_last_occurrence :: "string \<Rightarrow> string \<Rightarrow> string" where
  "after_last_occurrence sep s =
     (case last_occurrence sep s (length s) of
        None \<Rightarrow> s
      | Some i \<Rightarrow> drop (i + length sep) s)"

section \<open>A small configuration for concrete runs\<close>

text \<open>
  One machine client is registered under the secret \<open>S2\<close>. The provider of the example
  counts the tokens it has issued, accepts one public and one exchanged token, and
  rejects the signature of every other string.
\<close>

definition example_settings :: settings where
  "example_settings =
     \<lparr> KEYCLOAK_SERVER_URL = ''https://auth.example.org'',
       KEYCLOAK_REALM = ''cern'',
       KEYCLOAK_CONFIDENTIAL_CLIENT_ID = ''dials-confidential'',
       KEYCLOAK_CONFIDENTIAL_SECRET_KEY = ''confidential-secret'',
       KEYCLOAK_PUBLIC_CLIENT_ID = ''dials-public'',
       KEYCLOAK_API_CLIENTS = [''S2'' \<mapsto> ''machine-client''] \<rparr>"

definition example_claims :: "string \<Rightarrow> string \<Rightarrow> string \<Rightarrow> jwt_claims" where
  "example_claims a z s =
     \<lparr> aud = [a], azp = z, sub = s, preferred_username = s, roles = [] \<rparr>"

definition example_backend :: "nat backend" where
  "example_backend =
     \<lparr> issue_api_token =
         (\<lambda>k n. (Inr [''access_token'' \<mapsto> ''minted-for-'' @ client_id k], Suc n)),
       verify =
         (\<lambda>k raw n.
            (if raw = ''public-token''
             then Inr (example_claims ''dials-public'' ''dials-public'' ''alice'')
             else if raw = ''exchanged-token''
             then Inr (example_claims ''dials-confidential'' ''dials-public'' ''alice'')
             else Inl (classified ''bad_signature''), n)),
       decode_unverified = (\<lambda>raw. example_claims [] [] raw) \<rparr>"

definition example_world :: "nat world" where
  "example_world = startup example_settings 0"

definition example_request :: "(string \<times> string) list \<Rightarrow> request" where
  "example_request hs = \<lparr> headers = map_of hs \<rparr>"

text \<open>
  The client registered under \<open>S2\<close>, the token the secret authenticator makes for it,
  and the token the public bearer authenticator makes of \<open>Bearer public-token\<close>.
\<close>

definition example_machine_client :: oidc where
  "example_machine_client =
     \<lparr> server_url = ''https://auth.example.org'', client_id = ''machine-client'',
       client_secret_key = Some ''S2'', realm_name = ''cern'' \<rparr>"

definition example_machine_token :: token where
  "example_machine_token =
     \<lparr> access_token = ''minted-for-machine-client'', kc = example_machine_client,
       unv_claims = example_claims [] [] ''minted-for-machine-client'',
       claims = Some (example_claims [] [] ''minted-for-machine-client''),
       is_authenticated = True \<rparr>"

definition example_public_token :: token where
  "example_public_token =
     \<lparr> access_token = ''public-token'', kc = public_kc (init_module example_settings),
       unv_claims = example_claims [] [] ''public-token'',
       claims = Some (example_claims ''dials-public'' ''dials-public'' ''alice''),
       is_authenticated = True \<rparr>"

section \<open>Facts about splitting\<close>

lemma split_from_nonempty: "split_from sep piece rest \<noteq> []"
  by (induction sep piece rest rule: split_from.induct) auto

lemma split_from_no_occurrence:
  "\<not> sublist sep rest \<Longrightarrow> split_from sep piece rest = [piece @ rest]"
proof (induction sep piece rest rule: split_from.induct)
  case (1 sep piece)
  then show ?case by simp
next
  case (2 sep piece c cs)
  from "2.prems" have np: "\<not> prefix sep (c # cs)" and ns: "\<not> sublist sep cs"
    by (auto simp: sublist_Cons_right)
  with "2.IH"(2) show ?case by simp
qed

lemma no_overlap:
  assumes c: "c \<notin> set t"
    and eq: "(c # t) @ r = a @ (c # t) @ b" and a: "a \<noteq> []"
  shows "\<exists>a'. a = (c # t) @ a' \<and> r = a' @ (c # t) @ b"
proof -
  from eq obtain us where
    "(c # t = a @ us \<and> us @ r = (c # t) @ b) \<or> ((c # t) @ us = a \<and> r = us @ (c # t) @ b)"
    unfolding append_eq_append_conv2 by blast
  then show ?thesis
  proof
    assume h: "c # t = a @ us \<and> us @ r = (c # t) @ b"
    show ?thesis
    proof (cases us)
      case Nil
      with h show ?thesis by simp
    next
      case (Cons u us')
      from h Cons have "(u # us') @ r = (c # t) @ b" by blast
      then have "u = c" by simp
      moreover from h Cons have "c # t = a @ u # us'" by blast
      with a have "u \<in> set t"
        by (cases a) auto
      ultimately show ?thesis using c by simp
    qed
  next
    assume "(c # t) @ us = a \<and> r = us @ (c # t) @ b"
    then show ?thesis by auto
  qed
qed

lemma split_from_skip:
  "\<not> prefix sep (x # rest) \<Longrightarrow>
     split_from sep piece (x # rest) = split_from sep (piece @ [x]) rest"
  by simp

lemma split_from_cut:
  "sep \<noteq> [] \<Longrightarrow> split_from sep piece (sep @ r) = piece # split_from sep [] r"
  by (cases sep) simp_all

lemma split_from_last:
  assumes c: "c \<notin> set t" and nb: "\<not> sublist (c # t) b"
  shows "last (split_from (c # t) piece (a @ (c # t) @ b)) = b"
proof (induction "length a" arbitrary: a piece rule: less_induct)
  case less
  show ?case
  proof (cases a)
    case Nil
    have "split_from (c # t) piece ((c # t) @ b) = piece # split_from (c # t) [] b"
      by (rule split_from_cut) simp
    with Nil nb show ?thesis by (simp add: split_from_no_occurrence)
  next
    case (Cons x a')
    show ?thesis
    proof (cases "prefix (c # t) (a @ (c # t) @ b)")
      case True
      then obtain r where r: "a @ (c # t) @ b = (c # t) @ r"
        unfolding prefix_def by blast
      from no_overlap[OF c r[symmetric]] Cons obtain a'' where
        a'': "a = (c # t) @ a''" "r = a'' @ (c # t) @ b" by auto
      have "split_from (c # t) piece ((c # t) @ r) = piece # split_from (c # t) [] r"
        by (rule split_from_cut) simp
      moreover have "length a'' < length a" using a'' by simp
      ultimately show ?thesis
        using less[of a'' "[]"] a''(2) r by (simp add: split_from_nonempty)
    next
      case False
      then have "\<not> prefix (c # t) (x # (a' @ (c # t) @ b))"
        using Cons by simp
      then have "split_from (c # t) piece (x # (a' @ (c # t) @ b))
                 = split_from (c # t) (piece @ [x]) (a' @ (c # t) @ b)"
        by (rule split_from_skip)
      then show ?thesis using less[of a' "piece @ [x]"] Cons by simp
    qed
  qed
qed

lemma occurs_at_append: "occurs_at sep (a @ sep @ b) (length a)"
  by (simp add: occurs_at_def)

lemma occurs_at_decompose:
  assumes "occurs_at sep s i" "i \<le> length s"
  shows "s = take i s @ sep @ drop (i + length sep) s"
proof -
  have "drop i s = take (length sep) (drop i s) @ drop (length sep) (drop i s)"
    by (rule append_take_drop_id[symmetric])
  also have "\<dots> = sep @ drop (i + length sep) s"
    using assms(1) by (simp add: occurs_at_def add.commute)
  finally show ?thesis by (metis append_take_drop_id)
qed

lemma last_occurrence_None:
  "last_occurrence sep s n = None \<Longrightarrow> i \<le> n \<Longrightarrow> \<not> occurs_at sep s i"
proof (induction n)
  case 0
  then show ?case by (simp split: if_splits)
next
  case (Suc n)
  then show ?case by (cases "i = Suc n") (auto split: if_splits)
qed

lemma last_occurrence_Some:
  "last_occurrence sep s n = Some i \<Longrightarrow>
     occurs_at sep s i \<and> i \<le> n \<and> (\<forall>j\<le>n. occurs_at sep s j \<longrightarrow> j \<le> i)"
proof (induction n)
  case 0
  then show ?case by (simp split: if_splits)
next
  case (Suc n)
  show ?case
  proof (cases "occurs_at sep s (Suc n)")
    case True
    with Suc.prems show ?thesis by auto
  next
    case False
    with Suc.prems have "last_occurrence sep s n = Some i" by simp
    from Suc.IH[OF this] False show ?thesis
      by (metis le_Suc_eq)
  qed
qed

lemma sublist_occurs:
  assumes "sublist sep s"
  shows "\<exists>i\<le>length s. occurs_at sep s i"
proof -
  from assms obtain ps ss where "s = ps @ sep @ ss" unfolding sublist_def by blast
  then have "occurs_at sep s (length ps)" "length ps \<le> length s"
    by (simp_all add: occurs_at_append)
  then show ?thesis by blast
qed

lemma split_from_after_last_occurrence:
  assumes c: "c \<notin> set t"
  shows "last (split_from (c # t) [] s) = after_last_occurrence (c # t) s"
proof (cases "last_occurrence (c # t) s (length s)")
  case None
  then have "\<not> sublist (c # t) s"
    using last_occurrence_None sublist_occurs by blast
  then show ?thesis
    using None by (simp add: split_from_no_occurrence after_last_occurrence_def)
next
  case (Some i)
  let ?sep = "c # t"
  let ?b = "drop (i + length ?sep) s"
  from last_occurrence_Some[OF Some] have
    occ: "occurs_at ?sep s i" and le: "i \<le> length s"
    and mx: "\<And>j. j \<le> length s \<Longrightarrow> occurs_at ?sep s j \<Longrightarrow> j \<le> i"
    by auto
  have dec: "s = take i s @ ?sep @ ?b" by (rule occurs_at_decompose[OF occ le])
  have "\<not> sublist ?sep ?b"
  proof
    assume "sublist ?sep ?b"
    then obtain ps ss where b: "?b = ps @ ?sep @ ss" unfolding sublist_def by blast
    have "s = (take i s @ ?sep @ ps) @ ?sep @ ss"
      using dec b by (metis append.assoc)
    then have "occurs_at ?sep s (length (take i s @ ?sep @ ps))"
      by (metis occurs_at_append)
    moreover have "length (take i s @ ?sep @ ps) \<le> length s"
      using \<open>s = (take i s @ ?sep @ ps) @ ?sep @ ss\<close>
      by (metis le_add1 length_append)
    ultimately have "length (take i s @ ?sep @ ps) \<le> i" by (rule mx[rotated])
    then show False using le by simp
  qed
  from split_from_last[OF c this, of "[]" "take i s"] dec
  have "last (split_from ?sep [] s) = ?b" by simp
  then show ?thesis using Some by (simp add: after_last_occurrence_def)
qed

section \<open>The bearer header\<close>

lemma get_access_token_str:
  "hs HEADER_KEY_bearer = Some (PyStr v) \<Longrightarrow>
     get_access_token hs = Inr (last (split_from ''Bearer '' [] v))"
  using split_from_nonempty[of "''Bearer ''" "[]" v]
  by (cases "rev (split_from ''Bearer '' [] v)")
     (auto simp: get_access_token_def py_split_def last_item_def simp flip: hd_rev)

text \<open>
  C9. For every string value of the \<open>Authorization\<close> header, \<open>get_access_token\<close>
  returns the part of the value behind the last occurrence of \<open>Bearer \<close> (with the
  blank), and the whole value when \<open>Bearer \<close> does not occur in it; so a string value
  never raises \<open>bad_access_token\<close>. The first conjunct compares the source's
  \<^verbatim>\<open>split("Bearer ")[-1]\<close> with \<open>after_last_occurrence\<close>; the other two say the same
  with lists alone: no occurrence gives the value, and a value \<open>a @ ''Bearer '' @ b\<close>
  with no occurrence in \<open>b\<close> gives \<open>b\<close>.
\<close>

theorem get_access_token_of_string:
  assumes "hs HEADER_KEY_bearer = Some (PyStr v)"
  shows "get_access_token hs = Inr (after_last_occurrence ''Bearer '' v)
       \<and> (\<not> sublist ''Bearer '' v \<longrightarrow> get_access_token hs = Inr v)
       \<and> (\<forall>a b. v = a @ ''Bearer '' @ b \<and> \<not> sublist ''Bearer '' b
             \<longrightarrow> get_access_token hs = Inr b)"
proof -
  have c: "CHR ''B'' \<notin> set ''earer ''" by simp
  have g: "get_access_token hs = Inr (last (split_from ''Bearer '' [] v))"
    using assms by (rule get_access_token_str)
  have 1: "get_access_token hs = Inr (after_last_occurrence ''Bearer '' v)"
    using g split_from_after_last_occurrence[OF c, of v] by simp
  have 2: "\<not> sublist ''Bearer '' v \<longrightarrow> get_access_token hs = Inr v"
    using g by (simp add: split_from_no_occurrence)
  have 3: "\<forall>a b. v = a @ ''Bearer '' @ b \<and> \<not> sublist ''Bearer '' b
             \<longrightarrow> get_access_token hs = Inr b"
    using g split_from_last[OF c, of _ "[]"] by auto
  from 1 2 3 show ?thesis by blast
qed

theorem get_access_token_of_string_witness:
  "get_access_token [HEADER_KEY_bearer \<mapsto> PyStr ''Basic xyz''] = Inr ''Basic xyz''
   \<and> get_access_token [HEADER_KEY_bearer \<mapsto> PyStr ''Bearer abc''] = Inr ''abc''"
proof -
  have "after_last_occurrence ''Bearer '' ''Basic xyz'' = ''Basic xyz''" by code_simp
  moreover have "after_last_occurrence ''Bearer '' ''Bearer abc'' = ''abc''" by code_simp
  ultimately show ?thesis
    using get_access_token_of_string[of "[HEADER_KEY_bearer \<mapsto> PyStr ''Basic xyz'']" "''Basic xyz''"]
      get_access_token_of_string[of "[HEADER_KEY_bearer \<mapsto> PyStr ''Bearer abc'']" "''Bearer abc''"]
    by simp
qed

section \<open>Requests without the header\<close>

lemma headers_dict_Some: "headers req k = Some v \<Longrightarrow> headers_dict req k = Some (PyStr v)"
  by (simp add: headers_dict_def)

text \<open>
  C1, as amended. A request without \<open>X-CLIENT-SECRET\<close> makes the secret authenticator
  return \<^verbatim>\<open>None\<close>, raising nothing and leaving the world as it was. A request without
  \<open>Authorization\<close> makes a bearer authenticator, whatever its variant, raise
  \<open>AuthenticationFailed\<close> with the code \<open>authorization_not_found\<close>: it does not return
  \<^verbatim>\<open>None\<close>.
\<close>

theorem missing_header:
  "(headers req HEADER_KEY_secret = None \<longrightarrow> authenticate_secret B w req = (Inr None, w))
   \<and> (headers req HEADER_KEY_bearer = None \<longrightarrow>
        authenticate_bearer B self w req =
          (Inl (AuthenticationFailed ''Authorization header not found.''
                  (Some ''authorization_not_found'')), w))"
  by (simp add: authenticate_secret_def get_secret_key_def authenticate_bearer_def
      get_access_token_def headers_dict_def)

theorem missing_header_witness:
  "headers (example_request []) HEADER_KEY_secret = None
   \<and> fst (authenticate_secret example_backend example_world (example_request [])) = Inr None
   \<and> headers (example_request []) HEADER_KEY_bearer = None
   \<and> fst (authenticate_bearer example_backend CERNKeycloakConfidentialAuthentication
             example_world (example_request []))
       = Inl (AuthenticationFailed ''Authorization header not found.''
                (Some ''authorization_not_found''))"
  using missing_header[of "example_request []" example_backend example_world
      CERNKeycloakConfidentialAuthentication]
  by (simp add: example_request_def)

text \<open>
  C1 as stated fails: on the request without any header the public bearer authenticator
  does not return \<^verbatim>\<open>None\<close>, it raises.
\<close>

theorem bearer_missing_header_counterexample:
  "headers (example_request []) HEADER_KEY_bearer = None
   \<and> fst (authenticate_bearer example_backend CERNKeycloakPublicAuthentication
             example_world (example_request [])) \<noteq> Inr None
   \<and> fst (authenticate_bearer example_backend CERNKeycloakPublicAuthentication
             example_world (example_request []))
       = Inl (AuthenticationFailed ''Authorization header not found.''
                (Some ''authorization_not_found''))"
  by (simp add: example_request_def authenticate_bearer_def get_access_token_def
      headers_dict_def)

section \<open>A header that is no bearer header\<close>

text \<open>
  C2, the code at the header \<open>Authorization: Basic xyz\<close>. \<open>get_access_token\<close> raises
  nothing and returns the whole value; the public bearer authenticator builds a token
  from \<open>Basic xyz\<close> and calls \<open>validate\<close> on it, so the request fails with whatever
  validation says (the example provider rejects the signature), not with
  \<open>bad_access_token\<close>.
\<close>

theorem basic_scheme_is_taken_as_token:
  "get_access_token (headers_dict (example_request [(''Authorization'', ''Basic xyz'')]))
     = Inr ''Basic xyz''
   \<and> calls (snd (authenticate_bearer example_backend CERNKeycloakPublicAuthentication
        example_world (example_request [(''Authorization'', ''Basic xyz'')])))
     = [Validate (CERNKeycloakToken example_backend ''Basic xyz''
                    (public_kc (globals example_world)))
          [''dials-public''] [''dials-public'']]
   \<and> fst (authenticate_bearer example_backend CERNKeycloakPublicAuthentication
        example_world (example_request [(''Authorization'', ''Basic xyz'')]))
     = Inl (classified ''bad_signature'')"
  by (simp add: example_request_def authenticate_bearer_def get_access_token_def
      headers_dict_def HEADER_KEY_bearer_def py_split_def last_item_def
      get_kc_by_expected_token_def CERNKeycloakPublicAuthentication_def
      CERNKeycloakBearerAuthentication_def example_world_def startup_def
      example_settings_def validate_def CERNKeycloakToken_def example_backend_def)

section \<open>A secret that is not registered\<close>

text \<open>
  The two string literals of the \<^verbatim>\<open>raise\<close> stand side by side without a comma, so they
  are one argument: the failure has the joined text as its detail and no code.
\<close>

lemma unregistered_secret_raises:
  assumes "headers req HEADER_KEY_secret = Some s" "api_clients_kc (globals w) s = None"
  shows "authenticate_secret B w req =
           (Inl (AuthenticationFailed ''App secret is not authorized.app_secret_not_authorized''
                   None), w)"
  using assms
  by (simp add: authenticate_secret_def get_secret_key_def headers_dict_Some)

text \<open>
  C3, the code at the header \<open>X-CLIENT-SECRET: S1\<close> with \<open>S1\<close> not registered. The
  secret authenticator raises \<open>AuthenticationFailed\<close> and does not return \<^verbatim>\<open>None\<close>, but
  the failure carries no code: its reason is not \<open>app_secret_not_authorized\<close>.
\<close>

theorem unregistered_secret_failure_has_no_code:
  "fst (authenticate_secret example_backend example_world
          (example_request [(''X-CLIENT-SECRET'', ''S1'')]))
     = Inl (AuthenticationFailed ''App secret is not authorized.app_secret_not_authorized'' None)
   \<and> reason (AuthenticationFailed ''App secret is not authorized.app_secret_not_authorized'' None)
     \<noteq> Some ''app_secret_not_authorized''"
  by (simp add: example_request_def authenticate_secret_def get_secret_key_def
      headers_dict_def HEADER_KEY_secret_def example_world_def startup_def
      init_module_def example_settings_def)

section \<open>A registered secret\<close>

text \<open>
  C4. When the \<open>X-CLIENT-SECRET\<close> value is the key of a registered client \<open>C\<close> and
  \<open>C\<close>'s \<open>issue_api_token\<close> answers with an access token, the secret authenticator
  returns the principal of the token made of that string for \<open>C\<close>, flagged as
  authenticated with the unverified claims as its claims. The only call it logs is the
  one to \<open>issue_api_token\<close> of \<open>C\<close>, none to \<open>validate\<close>, and the outcome is the same
  whatever \<open>verify\<close> would say: no signature, audience or authorized-party check takes
  part.
\<close>

theorem registered_secret_mints_trusted_token:
  assumes "headers req HEADER_KEY_secret = Some s"
    and "api_clients_kc (globals w) s = Some C"
    and "issue_api_token B C (idp w) = (Inr issued, p')"
    and "issued ''access_token'' = Some raw"
  shows "authenticate_secret B w req =
           (Inr (Some (CERNKeycloakUser
                         \<lparr> access_token = raw, kc = C, unv_claims = decode_unverified B raw,
                           claims = Some (decode_unverified B raw), is_authenticated = True \<rparr>,
                       \<lparr> access_token = raw, kc = C, unv_claims = decode_unverified B raw,
                         claims = Some (decode_unverified B raw), is_authenticated = True \<rparr>)),
            w\<lparr>idp := p', calls := calls w @ [IssueApiToken C]\<rparr>)
       \<and> (\<forall>v. authenticate_secret (B\<lparr>verify := v\<rparr>) w req = authenticate_secret B w req)"
  using assms
  by (simp add: authenticate_secret_def get_secret_key_def headers_dict_Some
      CERNKeycloakToken_def Let_def)

theorem registered_secret_mints_trusted_token_witness:
  "headers (example_request [(''X-CLIENT-SECRET'', ''S2'')]) HEADER_KEY_secret = Some ''S2''
   \<and> api_clients_kc (globals example_world) ''S2'' = Some example_machine_client
   \<and> fst (authenticate_secret example_backend example_world
            (example_request [(''X-CLIENT-SECRET'', ''S2'')]))
       = Inr (Some (CERNKeycloakUser example_machine_token, example_machine_token))
   \<and> calls (snd (authenticate_secret example_backend example_world
           (example_request [(''X-CLIENT-SECRET'', ''S2'')])))
       = [IssueApiToken example_machine_client]"
proof -
  let ?req = "example_request [(''X-CLIENT-SECRET'', ''S2'')]"
  have h: "headers ?req HEADER_KEY_secret = Some ''S2''"
    by (simp add: example_request_def HEADER_KEY_secret_def)
  have r: "api_clients_kc (globals example_world) ''S2'' = Some example_machine_client"
    by (simp add: example_world_def startup_def init_module_def example_settings_def
        example_machine_client_def)
  have i: "issue_api_token example_backend example_machine_client (idp example_world)
             = (Inr [''access_token'' \<mapsto> ''minted-for-machine-client''], Suc 0)"
    by (simp add: example_backend_def example_world_def startup_def example_machine_client_def)
  have a: "[''access_token'' \<mapsto> ''minted-for-machine-client''] ''access_token''
             = Some ''minted-for-machine-client''"
    by simp
  have d: "decode_unverified example_backend ''minted-for-machine-client''
             = example_claims [] [] ''minted-for-machine-client''"
    by (simp add: example_backend_def)
  from registered_secret_mints_trusted_token[OF h r i a] h r d
  show ?thesis by (simp add: example_world_def startup_def example_machine_token_def)
qed

section \<open>The expected claim sets of the bearer variants\<close>



section \<open>The configured token type\<close>

text \<open>
  C10. \<open>get_kc_by_expected_token\<close> raises \<^verbatim>\<open>ValueError\<close> for every value of
  \<^verbatim>\<open>expected_bearer_token_type\<close> other than \<^verbatim>\<open>"public"\<close> and \<^verbatim>\<open>"confidential"\<close>. The
  constructors of the two exported classes set \<^verbatim>\<open>"public"\<close> and \<^verbatim>\<open>"confidential"\<close>, so
  for their instances the function returns a client with its expected sets and the
  error branch is not taken.
\<close>

theorem value_error_only_outside_the_two_types:
  "(ty \<noteq> PyStr ''public'' \<and> ty \<noteq> PyStr ''confidential'' \<longrightarrow>
      get_kc_by_expected_token c g \<lparr>expected_bearer_token_type = Some ty\<rparr>
        = Inl (ValueError ''expected_bearer_token_type should only be public or confidential.''))
   \<and> expected_bearer_token_type CERNKeycloakPublicAuthentication = Some (PyStr ''public'')
   \<and> expected_bearer_token_type CERNKeycloakConfidentialAuthentication
        = Some (PyStr ''confidential'')
   \<and> (\<forall>self \<in> {CERNKeycloakPublicAuthentication, CERNKeycloakConfidentialAuthentication}.
        \<exists>k valid_aud valid_azp.
          get_kc_by_expected_token c g self = Inr (k, valid_aud, valid_azp))"
  by (simp add: get_kc_by_expected_token_def CERNKeycloakPublicAuthentication_def
      CERNKeycloakConfidentialAuthentication_def CERNKeycloakBearerAuthentication_def)

theorem value_error_only_outside_the_two_types_witness:
  "PyStr ''admin'' \<noteq> PyStr ''public'' \<and> PyStr ''admin'' \<noteq> PyStr ''confidential''
   \<and> get_kc_by_expected_token example_settings (globals example_world)
        \<lparr>expected_bearer_token_type = Some (PyStr ''admin'')\<rparr>
       = Inl (ValueError ''expected_bearer_token_type should only be public or confidential.'')
   \<and> (\<exists>k valid_aud valid_azp.
         get_kc_by_expected_token example_settings (globals example_world)
           CERNKeycloakPublicAuthentication = Inr (k, valid_aud, valid_azp))"
  using value_error_only_outside_the_two_types[of "PyStr ''admin''" example_settings
      "globals example_world"]
  by simp

section \<open>What a returned principal rests on\<close>

lemma validate_success:
  assumes "validate B t0 valid_aud valid_azp p = (Inr t, p')"
  shows "access_token t = access_token t0 \<and> kc t = kc t0 \<and> unv_claims t = unv_claims t0
         \<and> is_authenticated t \<and> claims t \<noteq> None"
  using assms
  by (auto simp: validate_def split: if_splits prod.splits sum.splits)

lemma authenticate_bearer_success:
  assumes "authenticate_bearer B self w req = (Inr (Some (u, t)), w')"
  shows "\<exists>raw k valid_aud valid_azp.
           validate B (CERNKeycloakToken B raw k) valid_aud valid_azp (idp w) = (Inr t, idp w')
           \<and> u = CERNKeycloakUser t"
  using assms
  by (auto simp: authenticate_bearer_def Let_def split: sum.splits prod.splits) blast

lemma authenticate_secret_success:
  assumes "authenticate_secret B w req = (Inr (Some (u, t)), w')"
  shows "\<exists>raw k issued.
           issue_api_token B k (idp w) = (Inr issued, idp w')
           \<and> issued ''access_token'' = Some raw
           \<and> t = (CERNKeycloakToken B raw k)
                   \<lparr>claims := Some (decode_unverified B raw), is_authenticated := True\<rparr>
           \<and> u = CERNKeycloakUser t"
  using assms
  by (auto simp: authenticate_secret_def Let_def CERNKeycloakToken_def
      split: if_splits option.splits sum.splits prod.splits)


lemma example_bearer_pass:
  "fst (authenticate example_backend (Bearer CERNKeycloakPublicAuthentication) example_world
          (example_request [(''Authorization'', ''Bearer public-token'')]))
     = Inr (Some (CERNKeycloakUser example_public_token, example_public_token))"
  by (simp add: example_request_def authenticate_bearer_def get_access_token_def
      headers_dict_def HEADER_KEY_bearer_def py_split_def last_item_def
      get_kc_by_expected_token_def CERNKeycloakPublicAuthentication_def
      CERNKeycloakBearerAuthentication_def example_world_def startup_def
      example_settings_def validate_def CERNKeycloakToken_def example_backend_def
      example_claims_def Let_def example_public_token_def)

lemma secret_token_pre_trusted:
  assumes "authenticate_secret B w req = (Inr (Some (u, t)), w')"
  shows "principal_token u = t \<and> is_authenticated t \<and> claims t \<noteq> None
         \<and> pre_trusted B (idp w) t"
proof -
  from authenticate_secret_success[OF assms] obtain raw k issued where
    i: "issue_api_token B k (idp w) = (Inr issued, idp w')"
    and a: "issued ''access_token'' = Some raw"
    and t: "t = (CERNKeycloakToken B raw k)
                 \<lparr>claims := Some (decode_unverified B raw), is_authenticated := True\<rparr>"
    and u: "u = CERNKeycloakUser t"
    by blast
  have "pre_trusted B (idp w) t"
    using i a t by (simp add: pre_trusted_def CERNKeycloakToken_def)
  then show ?thesis using t u by (simp add: CERNKeycloakUser_def)
qed

lemma bearer_token_validated:
  assumes "authenticate_bearer B self w req = (Inr (Some (u, t)), w')"
  shows "principal_token u = t \<and> is_authenticated t \<and> claims t \<noteq> None
         \<and> (\<exists>valid_aud valid_azp. validated B (idp w) valid_aud valid_azp t)"
proof -
  from authenticate_bearer_success[OF assms] obtain raw k valid_aud valid_azp where
    v: "validate B (CERNKeycloakToken B raw k) valid_aud valid_azp (idp w) = (Inr t, idp w')"
    and u: "u = CERNKeycloakUser t"
    by blast
  from validate_success[OF v] have
    s: "access_token t = raw" "kc t = k" "is_authenticated t" "claims t \<noteq> None"
    by (simp_all add: CERNKeycloakToken_def)
  have "validated B (idp w) valid_aud valid_azp t"
    using v s by (simp add: validated_def)
  then show ?thesis using s u by (auto simp: CERNKeycloakUser_def)
qed

text \<open>
  C6. Whenever an authenticator returns a principal, the principal is the view of the
  returned token, the token is flagged as authenticated and has its claims, and the token
  is either pre-trusted (the process has just had it minted by the token's own client)
  or validated (\<open>validate\<close> completed on the fresh token and gave it). A token on which
  \<open>validate\<close> raised, or on which it was not run, is never behind a returned principal.
\<close>

theorem principal_only_for_trusted_token:
  "authenticate B a w req = (Inr (Some (u, t)), w') \<longrightarrow>
     principal_token u = t \<and> is_authenticated t \<and> claims t \<noteq> None
     \<and> (pre_trusted B (idp w) t
        \<or> (\<exists>valid_aud valid_azp. validated B (idp w) valid_aud valid_azp t))"
proof
  assume r: "authenticate B a w req = (Inr (Some (u, t)), w')"
  show "principal_token u = t \<and> is_authenticated t \<and> claims t \<noteq> None
     \<and> (pre_trusted B (idp w) t
        \<or> (\<exists>valid_aud valid_azp. validated B (idp w) valid_aud valid_azp t))"
  proof (cases a)
    case ClientSecret
    with r have "authenticate_secret B w req = (Inr (Some (u, t)), w')" by simp
    from secret_token_pre_trusted[OF this] show ?thesis by blast
  next
    case (Bearer self)
    with r have "authenticate_bearer B self w req = (Inr (Some (u, t)), w')" by simp
    from bearer_token_validated[OF this] show ?thesis by blast
  qed
qed

theorem principal_only_for_trusted_token_witness:
  "fst (authenticate example_backend (Bearer CERNKeycloakPublicAuthentication) example_world
          (example_request [(''Authorization'', ''Bearer public-token'')]))
     = Inr (Some (CERNKeycloakUser example_public_token, example_public_token))
   \<and> principal_token (CERNKeycloakUser example_public_token) = example_public_token
   \<and> is_authenticated example_public_token
   \<and> (pre_trusted example_backend (idp example_world) example_public_token
      \<or> (\<exists>valid_aud valid_azp.
            validated example_backend (idp example_world) valid_aud valid_azp
              example_public_token))"
proof -
  let ?a = "authenticate example_backend (Bearer CERNKeycloakPublicAuthentication) example_world
          (example_request [(''Authorization'', ''Bearer public-token'')])"
  have f: "fst ?a = Inr (Some (CERNKeycloakUser example_public_token, example_public_token))"
    by (rule example_bearer_pass)
  then have e: "?a = (Inr (Some (CERNKeycloakUser example_public_token, example_public_token)),
                      snd ?a)"
    by (metis prod.collapse)
  from principal_only_for_trusted_token[THEN mp, OF e] f show ?thesis by blast
qed

section \<open>Claims and the flag\<close>




section \<open>The module-level names across passes\<close>

lemma authenticate_frame:
  "globals (snd (authenticate B a w req)) = globals w
   \<and> cfg (snd (authenticate B a w req)) = cfg w"
proof (cases a)
  case ClientSecret
  then show ?thesis
    by (simp add: authenticate_secret_def Let_def
        split: option.splits sum.splits prod.splits)
next
  case (Bearer self)
  then show ?thesis
    by (simp add: authenticate_bearer_def Let_def
        split: sum.splits prod.splits)
qed

text \<open>
  C8. After any sequence of authentication passes, by any authenticators on any
  requests, the registry and the public and confidential clients are what they were
  before, and so are the settings; started from the module's initialisation they are
  still what the initialisation built. Only the provider's state and the log move.
\<close>

theorem registry_and_clients_unchanged:
  "globals (run_passes B w passes) = globals w
   \<and> cfg (run_passes B w passes) = cfg w
   \<and> globals (run_passes B (startup c p) passes) = init_module c"
proof -
  have "globals (run_passes B w passes) = globals w \<and> cfg (run_passes B w passes) = cfg w"
    for w :: "'a world"
  proof (induction passes arbitrary: w)
    case Nil
    show ?case by simp
  next
    case (Cons x passes)
    obtain a req where x: "x = (a, req)" by (cases x)
    show ?case using Cons[of "snd (authenticate B a w req)"] authenticate_frame[of B a w req] x
      by simp
  qed
  then show ?thesis by (simp add: startup_def)
qed

theorem registry_and_clients_unchanged_witness:
  "globals (run_passes example_backend example_world
      [(ClientSecret, example_request [(''X-CLIENT-SECRET'', ''S2'')]),
       (Bearer CERNKeycloakPublicAuthentication,
        example_request [(''Authorization'', ''Bearer public-token'')])])
     = init_module example_settings
   \<and> idp (run_passes example_backend example_world
      [(ClientSecret, example_request [(''X-CLIENT-SECRET'', ''S2'')]),
       (Bearer CERNKeycloakPublicAuthentication,
        example_request [(''Authorization'', ''Bearer public-token'')])])
     = Suc 0"
proof -
  have "idp (run_passes example_backend example_world
      [(ClientSecret, example_request [(''X-CLIENT-SECRET'', ''S2'')]),
       (Bearer CERNKeycloakPublicAuthentication,
        example_request [(''Authorization'', ''Bearer public-token'')])])
     = Suc 0"
    by (simp add: example_request_def authenticate_secret_def get_secret_key_def
      authenticate_bearer_def get_access_token_def py_split_def last_item_def
      get_kc_by_expected_token_def CERNKeycloakPublicAuthentication_def
      CERNKeycloakBearerAuthentication_def validate_def
      headers_dict_def HEADER_KEY_secret_def HEADER_KEY_bearer_def example_world_def startup_def
      init_module_def example_settings_def example_backend_def CERNKeycloakToken_def Let_def)
  moreover have "globals (run_passes example_backend example_world
      [(ClientSecret, example_request [(''X-CLIENT-SECRET'', ''S2'')]),
       (Bearer CERNKeycloakPublicAuthentication,
        example_request [(''Authorization'', ''Bearer public-token'')])])
     = init_module example_settings"
    using registry_and_clients_unchanged[of example_backend example_world _ example_settings 0]
    unfolding example_world_def by blast
  ultimately show ?thesis by blast
qed

end
